theory Spec2Isabelle
  imports Main "HOL-Library.Monad_Syntax"
begin

section \<open>Thread-local heaps of the Hoard allocator on Unix (unixtls.cpp)\<close>

text \<open>
  The file binds one thread-local allocation buffer (TLAB, type \<^verbatim>\<open>TheCustomHeapType\<close>) to
  every thread and interposes \<^verbatim>\<open>pthread_create\<close> and \<^verbatim>\<open>pthread_exit\<close> to set the
  buffer up and to flush it. Everything it does beyond moving pointers is a call to a
  collaborator: the main Hoard heap (\<^verbatim>\<open>malloc\<close>, \<^verbatim>\<open>free\<close>, \<^verbatim>\<open>findUnusedHeap\<close>,
  \<^verbatim>\<open>releaseHeap\<close>), the TLAB (\<^verbatim>\<open>clear\<close>, its constructor) and the thread library.
  The embedding keeps the state the file owns in a record and writes every call to a
  collaborator, in program order, to a trace. The claims are about one thread at a
  time, so the functions below take the calling thread as an argument and the order
  of the trace is the program order of the code.
\<close>

subsection \<open>Values\<close>

type_synonym tid = nat

text \<open>A \<^verbatim>\<open>void *\<close> exchanged with thread code (argument, result, handle, attribute).\<close>

type_synonym val = nat

text \<open>A \<^verbatim>\<open>threadFunctionType\<close>: the address of a thread function of the program.\<close>

type_synonym fnptr = nat

text \<open>
  Pointers the file handles: \<^verbatim>\<open>NULL\<close>, the address of a thread's \<^verbatim>\<open>tlabBuffer\<close>
  (a \<^verbatim>\<open>__thread\<close> array, one per thread), and objects obtained from an allocator.
\<close>

datatype ptr = NULL | TlabBuffer tid | Obj nat

text \<open>
  The two builds of the file: with \<^verbatim>\<open>USE_THREAD_KEYWORD\<close> (lines 65 to 91) the TLAB
  lives in \<^verbatim>\<open>__thread\<close> storage, without it (lines 94 to 149) under a pthread key.
\<close>

datatype variant = Inline | Keyed

text \<open>The start routine handed to the real \<^verbatim>\<open>pthread_create\<close>.\<close>

datatype start = StartMeUp | UserRoutine fnptr

datatype event =
    Construct tid ptr
  | Clear tid ptr
  | PoolMalloc tid ptr
  | PoolFree tid ptr
  | FindUnusedHeap tid
  | ReleaseHeap tid
  | UseCache tid ptr
  | CallEntry tid fnptr val
  | EntryReturned tid val
  | ThreadEnd tid val
  | ExitProcess int

text \<open>
  How a call ends: it returns a value to its caller, the calling thread has ended
  with a value, or the process has exited with a status.
\<close>

datatype outcome = Returned val | ThreadExit val | ProcessExit int

text \<open>
  What a thread function of the program does, as far as this file can see it: it uses
  the allocator (each use fetches the TLAB with \<^verbatim>\<open>getCustomHeap\<close>), or it calls
  \<^verbatim>\<open>pthread_exit\<close>, which is the interposed one.
\<close>

datatype stmt = UseHeap | CallPthreadExit val

subsection \<open>State\<close>

record state =
  theTLAB :: "tid \<Rightarrow> ptr"
  specific :: "tid \<Rightarrow> ptr"
  theHeapKey :: bool
  key_once :: bool
  initializedTSD :: bool
  forcedTLAB :: bool
  anyThreadCreated :: bool
  packages :: "ptr \<rightharpoonup> fnptr \<times> val"
  next_obj :: nat
  trace :: "event list"

text \<open>
  \<^item> \<open>theTLAB\<close>: the \<^verbatim>\<open>__thread\<close> pointer of line 76, per thread, initially \<^verbatim>\<open>NULL\<close>;
  \<^item> \<open>specific\<close>: the value each thread holds under \<^verbatim>\<open>theHeapKey\<close>, initially \<^verbatim>\<open>NULL\<close>;
  \<^item> \<open>theHeapKey\<close>: whether the key of line 97 has been created (with the destructor
    \<^verbatim>\<open>deleteThatHeap\<close>); \<open>key_once\<close>: whether \<^verbatim>\<open>key_once\<close> has fired;
  \<^item> \<open>initializedTSD\<close>: the static flag of line 121;
  \<^item> \<open>forcedTLAB\<close>: whether the function-local static \<^verbatim>\<open>t\<close> of line 317 is initialised;
  \<^item> \<open>anyThreadCreated\<close>: the shared flag of line 201;
  \<^item> \<open>packages\<close>: the live \<^verbatim>\<open>pair<threadFunctionType, void *>\<close> objects made by \<^verbatim>\<open>new\<close>;
  \<^item> \<open>next_obj\<close>: the next address the allocators hand out;
  \<^item> \<open>trace\<close>: the calls to collaborators made so far.
\<close>

definition boot :: state where
  "boot = \<lparr> theTLAB = (\<lambda>_. NULL), specific = (\<lambda>_. NULL), theHeapKey = False,
            key_once = False, initializedTSD = False, forcedTLAB = False,
            anyThreadCreated = False, packages = Map.empty, next_obj = 0, trace = [] \<rparr>"

definition emit :: "event \<Rightarrow> state \<Rightarrow> state" where
  "emit e s = s\<lparr>trace := trace s @ [e]\<rparr>"

text \<open>
  The platform: what \<^verbatim>\<open>pthread_key_create\<close> returns, whether the thread library
  tolerates a key that was never created, and the two functions that
  \<^verbatim>\<open>dlsym(RTLD_NEXT, ...)\<close> resolves (lines 295 and 329). A call that ends in
  undefined behaviour (a pthread key that was never created, on a library that does
  not tolerate it; a pointer that holds no object) or in a failed \<^verbatim>\<open>assert\<close> is
  \<open>None\<close>.
\<close>

record platform =
  key_create_rc :: int
  bad_key_tolerated :: bool
  real_pthread_exit :: "tid \<Rightarrow> val \<Rightarrow> state \<Rightarrow> outcome \<times> state"
  real_pthread_create :: "tid \<Rightarrow> val \<Rightarrow> val \<Rightarrow> start \<Rightarrow> ptr \<Rightarrow> state \<Rightarrow> int \<times> state"

subsection \<open>Collaborators\<close>

text \<open>
  \<^verbatim>\<open>getMainHoardHeap()->malloc(sz)\<close>: the main heap hands out a fresh object. The file
  never tests the result, and the model has the allocation succeed.
\<close>

definition pool_malloc :: "tid \<Rightarrow> state \<Rightarrow> ptr \<times> state" where
  "pool_malloc t s =
     (Obj (next_obj s), emit (PoolMalloc t (Obj (next_obj s))) (s\<lparr>next_obj := Suc (next_obj s)\<rparr>))"

text \<open>\<^verbatim>\<open>new pair<threadFunctionType, void *> (start_routine, arg)\<close> (lines 335 to 338).\<close>

definition new_pair :: "fnptr \<times> val \<Rightarrow> state \<Rightarrow> ptr \<times> state" where
  "new_pair z s =
     (Obj (next_obj s),
      s\<lparr>packages := (packages s)(Obj (next_obj s) \<mapsto> z), next_obj := Suc (next_obj s)\<rparr>)"

text \<open>
  \<^verbatim>\<open>pthread_key_create(&theHeapKey, deleteThatHeap)\<close>: on success (0) the key exists
  from now on; on failure nothing is created and the error number is returned.
\<close>

definition pthread_key_create :: "platform \<Rightarrow> state \<Rightarrow> int \<times> state" where
  "pthread_key_create P s =
     (if key_create_rc P = 0 then (0, s\<lparr>theHeapKey := True\<rparr>) else (key_create_rc P, s))"

text \<open>
  \<^verbatim>\<open>pthread_getspecific\<close> and \<^verbatim>\<open>pthread_setspecific\<close> on \<^verbatim>\<open>theHeapKey\<close>. POSIX
  leaves both undefined for a key that \<^verbatim>\<open>pthread_key_create\<close> did not return. A
  library that tolerates such a key (glibc does) answers \<^verbatim>\<open>NULL\<close> to the lookup and
  refuses the store with \<^verbatim>\<open>EINVAL\<close>, a result the file does not look at (line 137).
\<close>

definition pthread_getspecific :: "platform \<Rightarrow> tid \<Rightarrow> state \<Rightarrow> ptr option" where
  "pthread_getspecific P t s =
     (if theHeapKey s then Some (specific s t)
      else if bad_key_tolerated P then Some NULL
      else None)"

definition pthread_setspecific :: "platform \<Rightarrow> tid \<Rightarrow> ptr \<Rightarrow> state \<Rightarrow> state option" where
  "pthread_setspecific P t p s =
     (if theHeapKey s then Some (s\<lparr>specific := (specific s)(t := p)\<rparr>)
      else if bad_key_tolerated P then Some s
      else None)"

subsection \<open>The inline variant (lines 65 to 91)\<close>

definition initializeCustomHeap_inline :: "tid \<Rightarrow> state \<Rightarrow> ptr \<times> state" where
  "initializeCustomHeap_inline t s =
     (let s1 = emit (Construct t (TlabBuffer t)) s;
          s2 = s1\<lparr>theTLAB := (theTLAB s1)(t := TlabBuffer t)\<rparr>
      in (theTLAB s2 t, s2))"

definition getCustomHeap_inline :: "tid \<Rightarrow> state \<Rightarrow> ptr \<times> state" where
  "getCustomHeap_inline t s =
     (let (p, s1) = (if theTLAB s t \<noteq> NULL then (theTLAB s t, s)
                     else initializeCustomHeap_inline t s);
          s2 = s1\<lparr>theTLAB := (theTLAB s1)(t := p)\<rparr>
      in (theTLAB s2 t, s2))"

subsection \<open>The keyed variant (lines 94 to 149)\<close>

text \<open>
  The key's destructor (lines 103 to 110): it clears the TLAB, gives its memory back
  to the main heap and releases the thread's heap.
\<close>

definition deleteThatHeap :: "tid \<Rightarrow> ptr \<Rightarrow> state \<Rightarrow> state" where
  "deleteThatHeap t p s = emit (ReleaseHeap t) (emit (PoolFree t p) (emit (Clear t p) s))"

text \<open>
  \<^verbatim>\<open>make_heap_key\<close> (lines 112 to 116) tests the result of the creation; the branch
  for a result other than 0 holds a comment and no statement.
\<close>

definition make_heap_key :: "platform \<Rightarrow> state \<Rightarrow> state" where
  "make_heap_key P s =
     (let (rc, s1) = pthread_key_create P s
      in if rc \<noteq> 0 then s1 else s1)"

text \<open>\<^verbatim>\<open>pthread_once(&key_once, make_heap_key)\<close>.\<close>

definition pthread_once :: "platform \<Rightarrow> state \<Rightarrow> state" where
  "pthread_once P s = (if key_once s then s else (make_heap_key P s)\<lparr>key_once := True\<rparr>)"

text \<open>
  \<^verbatim>\<open>initTSD\<close> (lines 120 to 127) is a constructor of the library, so the loader runs
  it, and \<^verbatim>\<open>getCustomHeap\<close> runs it again on every call.
\<close>

definition initTSD :: "platform \<Rightarrow> state \<Rightarrow> state" where
  "initTSD P s =
     (if \<not> initializedTSD s then (pthread_once P s)\<lparr>initializedTSD := True\<rparr> else s)"

text \<open>
  \<^verbatim>\<open>initializeCustomHeap\<close> (lines 129 to 139): the \<^verbatim>\<open>assert\<close> that the thread has no
  value yet, the allocation, the construction in place, the store under the key.
\<close>

definition initializeCustomHeap_keyed :: "platform \<Rightarrow> tid \<Rightarrow> state \<Rightarrow> (ptr \<times> state) option" where
  "initializeCustomHeap_keyed P t s =
     do {
       v \<leftarrow> pthread_getspecific P t s;
       if v \<noteq> NULL then None
       else do {
         let (mh, s1) = pool_malloc t s;
         let heap = mh;
         let s2 = emit (Construct t heap) s1;
         s3 \<leftarrow> pthread_setspecific P t heap s2;
         Some (heap, s3)
       }
     }"

definition getCustomHeap_keyed :: "platform \<Rightarrow> tid \<Rightarrow> state \<Rightarrow> (ptr \<times> state) option" where
  "getCustomHeap_keyed P t s =
     do {
       let s1 = initTSD P s;
       heap \<leftarrow> pthread_getspecific P t s1;
       if heap = NULL then initializeCustomHeap_keyed P t s1 else Some (heap, s1)
     }"

definition getCustomHeap :: "variant \<Rightarrow> platform \<Rightarrow> tid \<Rightarrow> state \<Rightarrow> (ptr \<times> state) option" where
  "getCustomHeap V P t s =
     (case V of Inline \<Rightarrow> Some (getCustomHeap_inline t s) | Keyed \<Rightarrow> getCustomHeap_keyed P t s)"

subsection \<open>Interception (lines 154 to 343)\<close>

text \<open>\<^verbatim>\<open>exitRoutine\<close> (lines 174 to 182): fetch the TLAB, clear it, release the heap.\<close>

definition exitRoutine :: "variant \<Rightarrow> platform \<Rightarrow> tid \<Rightarrow> state \<Rightarrow> state option" where
  "exitRoutine V P t s =
     do {
       (heap, s1) \<leftarrow> getCustomHeap V P t s;
       let s2 = emit (Clear t heap) s1;
       Some (emit (ReleaseHeap t) s2)
     }"

text \<open>
  The interposed \<^verbatim>\<open>pthread_exit\<close> (lines 284 to 305): the teardown, the call of the
  real function (line 301) and what follows that call (line 304): should the real
  function return, the code goes on to \<^verbatim>\<open>exit(0)\<close>.
\<close>

definition after_real_exit :: "outcome \<times> state \<Rightarrow> outcome \<times> state" where
  "after_real_exit x =
     (case x of
        (Returned _, s2) \<Rightarrow> (ProcessExit 0, emit (ExitProcess 0) s2)
      | (ThreadExit v, s2) \<Rightarrow> (ThreadExit v, s2)
      | (ProcessExit c, s2) \<Rightarrow> (ProcessExit c, s2))"

definition pthread_exit :: "variant \<Rightarrow> platform \<Rightarrow> tid \<Rightarrow> val \<Rightarrow> state \<Rightarrow> (outcome \<times> state) option" where
  "pthread_exit V P t value_ptr s =
     do {
       s1 \<leftarrow> exitRoutine V P t s;
       Some (after_real_exit (real_pthread_exit P t value_ptr s1))
     }"

text \<open>
  Running the body of a thread function: the statements in order, then the return of
  the value \<open>r\<close>. A call of \<^verbatim>\<open>pthread_exit\<close> ends the body there.
\<close>

fun run_body :: "variant \<Rightarrow> platform \<Rightarrow> tid \<Rightarrow> stmt list \<Rightarrow> val \<Rightarrow> state \<Rightarrow> (outcome \<times> state) option" where
  "run_body V P t [] r s = Some (Returned r, s)"
| "run_body V P t (UseHeap # rest) r s =
     do {
       (heap, s1) \<leftarrow> getCustomHeap V P t s;
       run_body V P t rest r (emit (UseCache t heap) s1)
     }"
| "run_body V P t (CallPthreadExit v # rest) r s = pthread_exit V P t v s"

text \<open>
  \<^verbatim>\<open>startMeUp\<close> (lines 185 to 198). \<open>C\<close> is the program: what the thread function at an
  address does with an argument (its statements and the value it returns). Reading
  \<^verbatim>\<open>z->first\<close> and \<^verbatim>\<open>z->second\<close> needs a live pair at \<open>a\<close>.
\<close>

definition startMeUp ::
  "variant \<Rightarrow> platform \<Rightarrow> (fnptr \<Rightarrow> val \<Rightarrow> stmt list \<times> val) \<Rightarrow> tid \<Rightarrow> ptr \<Rightarrow> state
     \<Rightarrow> (outcome \<times> state) option" where
  "startMeUp V P C t a s =
     do {
       (_, s1) \<leftarrow> getCustomHeap V P t s;
       let s2 = emit (FindUnusedHeap t) s1;
       (f, arg) \<leftarrow> packages s2 a;
       let s3 = emit (CallEntry t f arg) s2;
       (out, s4) \<leftarrow> run_body V P t (fst (C f arg)) (snd (C f arg)) s3;
       (case out of
          Returned result \<Rightarrow>
            do {
              s5 \<leftarrow> exitRoutine V P t (emit (EntryReturned t result) s4);
              Some (Returned result, s5)
            }
        | ThreadExit v \<Rightarrow> Some (ThreadExit v, s4)
        | ProcessExit c \<Rightarrow> Some (ProcessExit c, s4))
     }"

text \<open>The interposed \<^verbatim>\<open>pthread_create\<close> (lines 308 to 343), called by thread \<open>c\<close>.\<close>

definition pthread_create ::
  "variant \<Rightarrow> platform \<Rightarrow> tid \<Rightarrow> val \<Rightarrow> val \<Rightarrow> fnptr \<Rightarrow> val \<Rightarrow> state \<Rightarrow> (int \<times> state) option" where
  "pthread_create V P c thread attr start_routine arg s =
     do {
       s1 \<leftarrow> (if forcedTLAB s then Some s
              else do { (_, s') \<leftarrow> getCustomHeap V P c s; Some (s'\<lparr>forcedTLAB := True\<rparr>) });
       let s2 = s1\<lparr>anyThreadCreated := True\<rparr>;
       let (args, s3) = new_pair (start_routine, arg) s2;
       let result = real_pthread_create P c thread attr StartMeUp args s3;
       Some result
     }"

subsection \<open>The thread library\<close>

text \<open>
  The end of a thread under POSIX: for a key whose value is not \<^verbatim>\<open>NULL\<close> the value is
  set to \<^verbatim>\<open>NULL\<close> and the key's destructor is called with the old value. The only
  key of this file is \<^verbatim>\<open>theHeapKey\<close>, which exists in the keyed variant only, and its
  destructor stores no new value, so one round is all there is.
\<close>

definition thread_end :: "variant \<Rightarrow> tid \<Rightarrow> val \<Rightarrow> state \<Rightarrow> outcome \<times> state" where
  "thread_end V t v s =
     (let s1 = emit (ThreadEnd t v) s
      in if V = Keyed \<and> theHeapKey s1 \<and> specific s1 t \<noteq> NULL
         then (ThreadExit v, deleteThatHeap t (specific s1 t) (s1\<lparr>specific := (specific s1)(t := NULL)\<rparr>))
         else (ThreadExit v, s1))"

text \<open>
  A POSIX platform: a key that was never created is not tolerated; the real
  \<^verbatim>\<open>pthread_exit\<close> ends the calling thread and does not return; the real
  \<^verbatim>\<open>pthread_create\<close> of this model only reports its result \<open>rc\<close> (the new thread is
  run by \<open>thread_main\<close>).
\<close>

definition posix :: "variant \<Rightarrow> int \<Rightarrow> int \<Rightarrow> platform" where
  "posix V krc rc =
     \<lparr> key_create_rc = krc,
       bad_key_tolerated = False,
       real_pthread_exit = thread_end V,
       real_pthread_create = (\<lambda>c thread attr st a s. (rc, s)) \<rparr>"

text \<open>The same platform with a thread library that tolerates a key never created.\<close>

definition glibc :: "variant \<Rightarrow> int \<Rightarrow> int \<Rightarrow> platform" where
  "glibc V krc rc = (posix V krc rc)\<lparr>bad_key_tolerated := True\<rparr>"

text \<open>
  The life of a thread that the real \<^verbatim>\<open>pthread_create\<close> started on routine
  \<^verbatim>\<open>startMeUp\<close> with argument \<open>a\<close>: the routine runs, and its return ends the thread
  as a call of the real \<^verbatim>\<open>pthread_exit\<close> with the returned value would.
\<close>

definition thread_main ::
  "variant \<Rightarrow> platform \<Rightarrow> (fnptr \<Rightarrow> val \<Rightarrow> stmt list \<times> val) \<Rightarrow> tid \<Rightarrow> ptr \<Rightarrow> state
     \<Rightarrow> (outcome \<times> state) option" where
  "thread_main V P C t a s =
     do {
       (out, s1) \<leftarrow> startMeUp V P C t a s;
       Some (case out of
               Returned v \<Rightarrow> thread_end V t v s1
             | ThreadExit v \<Rightarrow> (ThreadExit v, s1)
             | ProcessExit c \<Rightarrow> (ProcessExit c, s1))
     }"

subsection \<open>Notions the properties are stated with\<close>

text \<open>The slot that holds the calling thread's TLAB in each variant.\<close>

definition cache :: "variant \<Rightarrow> state \<Rightarrow> tid \<Rightarrow> ptr" where
  "cache V s t = (case V of Inline \<Rightarrow> theTLAB s t | Keyed \<Rightarrow> specific s t)"

text \<open>
  The keyed variant can be used: the key exists, or the one-time registration is still
  to run and will succeed.
\<close>

definition key_ready :: "platform \<Rightarrow> state \<Rightarrow> bool" where
  "key_ready P s =
     (if initializedTSD s \<or> key_once s then theHeapKey s else key_create_rc P = 0)"

definition tls_ready :: "variant \<Rightarrow> platform \<Rightarrow> state \<Rightarrow> bool" where
  "tls_ready V P s = (case V of Inline \<Rightarrow> True | Keyed \<Rightarrow> key_ready P s)"

text \<open>\<open>a\<close> occurs in the trace and \<open>b\<close> occurs after its first occurrence.\<close>

definition happens_before :: "event \<Rightarrow> event \<Rightarrow> event list \<Rightarrow> bool" where
  "happens_before a b tr = (b \<in> set (drop 1 (dropWhile (\<lambda>e. e \<noteq> a) tr)))"

text \<open>
  The keyed variant has run its one-time registration and holds the key; the inline
  variant has nothing to register.
\<close>

definition settled :: "variant \<Rightarrow> state \<Rightarrow> bool" where
  "settled V s = (case V of Inline \<Rightarrow> True | Keyed \<Rightarrow> initializedTSD s \<and> theHeapKey s)"

text \<open>
  The calls \<^verbatim>\<open>getCustomHeap\<close> makes in state \<open>s\<close> when it answers \<open>h\<close>: none when the
  slot is set, the construction (after the allocation, in the keyed variant) when not.
\<close>

definition construct_events :: "variant \<Rightarrow> state \<Rightarrow> tid \<Rightarrow> ptr \<Rightarrow> event list" where
  "construct_events V s t h =
     (if cache V s t \<noteq> NULL then []
      else case V of Inline \<Rightarrow> [Construct t h] | Keyed \<Rightarrow> [PoolMalloc t h, Construct t h])"

text \<open>
  Two programs and a state to run the functions on. In \<open>example_prog\<close> every thread
  function uses the allocator once and returns its argument plus 35; in
  \<open>example_prog_exit\<close> it uses the allocator, calls \<^verbatim>\<open>pthread_exit\<close> with its argument
  plus 35, and has more code after the call. In \<open>example_state\<close> one launch package
  is live, for the function at address 5 with the argument 7.
\<close>

definition example_prog :: "fnptr \<Rightarrow> val \<Rightarrow> stmt list \<times> val" where
  "example_prog f arg = ([UseHeap], arg + 35)"

definition example_prog_exit :: "fnptr \<Rightarrow> val \<Rightarrow> stmt list \<times> val" where
  "example_prog_exit f arg = ([UseHeap, CallPthreadExit (arg + 35), UseHeap], 0)"

definition example_state :: state where
  "example_state = boot\<lparr>packages := [Obj 0 \<mapsto> (5, 7)], next_obj := 1\<rparr>"

text \<open>
  The calls a trace makes to the main heap, and the calls it makes to TLABs.
\<close>

definition is_pool_call :: "event \<Rightarrow> bool" where
  "is_pool_call e =
     (case e of PoolMalloc _ _ \<Rightarrow> True | PoolFree _ _ \<Rightarrow> True | FindUnusedHeap _ \<Rightarrow> True
      | ReleaseHeap _ \<Rightarrow> True | _ \<Rightarrow> False)"

definition is_cache_call :: "event \<Rightarrow> bool" where
  "is_cache_call e =
     (case e of Construct _ _ \<Rightarrow> True | Clear _ _ \<Rightarrow> True | UseCache _ _ \<Rightarrow> True | _ \<Rightarrow> False)"

definition pool_calls :: "event list \<Rightarrow> event list" where
  "pool_calls tr = filter is_pool_call tr"

definition cache_calls :: "event list \<Rightarrow> event list" where
  "cache_calls tr = filter is_cache_call tr"

text \<open>
  What the key's destructor \<^verbatim>\<open>deleteThatHeap\<close> does to the value \<open>h\<close> at the end of
  thread \<open>t\<close>; the inline variant has no key and no destructor.
\<close>

definition destructor_events :: "variant \<Rightarrow> tid \<Rightarrow> ptr \<Rightarrow> event list" where
  "destructor_events V t h =
     (case V of Inline \<Rightarrow> [] | Keyed \<Rightarrow> [Clear t h, PoolFree t h, ReleaseHeap t])"

text \<open>
  What threads do with their TLABs between two calls of \<^verbatim>\<open>getCustomHeap\<close>: a call
  of \<^verbatim>\<open>getCustomHeap\<close> itself, a use of the allocator (\<^verbatim>\<open>getCustomHeap\<close> and then a
  call to the TLAB it answered, as in \<open>run_body\<close>), the lease of line 187, and the
  teardown \<^verbatim>\<open>exitRoutine\<close>; each by any thread. \<open>run_ops\<close> runs a list of them and
  collects, in order, the thread and the answer of every \<^verbatim>\<open>getCustomHeap\<close> that a
  \<open>Get\<close> or a \<open>Use\<close> makes.
\<close>

datatype op = Get tid | Use tid | Lease tid | Teardown tid

fun run_ops :: "variant \<Rightarrow> platform \<Rightarrow> op list \<Rightarrow> state \<Rightarrow> ((tid \<times> ptr) list \<times> state) option" where
  "run_ops V P [] s = Some ([], s)"
| "run_ops V P (Get u # ops) s =
     do {
       (h, s1) \<leftarrow> getCustomHeap V P u s;
       (rs, s2) \<leftarrow> run_ops V P ops s1;
       Some ((u, h) # rs, s2)
     }"
| "run_ops V P (Use u # ops) s =
     do {
       (h, s1) \<leftarrow> getCustomHeap V P u s;
       (rs, s2) \<leftarrow> run_ops V P ops (emit (UseCache u h) s1);
       Some ((u, h) # rs, s2)
     }"
| "run_ops V P (Lease u # ops) s = run_ops V P ops (emit (FindUnusedHeap u) s)"
| "run_ops V P (Teardown u # ops) s =
     do {
       s1 \<leftarrow> exitRoutine V P u s;
       run_ops V P ops s1
     }"

text \<open>The answers \<open>run_ops\<close> collected for thread \<open>t\<close>.\<close>

definition answers_to :: "tid \<Rightarrow> (tid \<times> ptr) list \<Rightarrow> ptr list" where
  "answers_to t rs = map snd (filter (\<lambda>r. fst r = t) rs)"

text \<open>The TLABs a trace constructs for thread \<open>t\<close>.\<close>

definition constructed_for :: "tid \<Rightarrow> event list \<Rightarrow> ptr list" where
  "constructed_for t tr =
     concat (map (\<lambda>e. case e of Construct u p \<Rightarrow> (if u = t then [p] else []) | _ \<Rightarrow> []) tr)"

text \<open>
  Thread 2 in the middle of its life in the keyed variant: from \<open>example_state\<close> it has
  fetched its TLAB (constructing it at \<open>Obj 1\<close>), leased a heap and used the allocator
  once.
\<close>

definition example_running :: state where
  "example_running =
     example_state\<lparr>specific := (\<lambda>_. NULL)(2 := Obj 1), theHeapKey := True, key_once := True,
       initializedTSD := True, next_obj := 2,
       trace := [PoolMalloc 2 (Obj 1), Construct 2 (Obj 1), FindUnusedHeap 2, UseCache 2 (Obj 1)]\<rparr>"

section \<open>Basic facts\<close>

lemma settled_trace [simp]: "settled V (s\<lparr>trace := tr\<rparr>) = settled V s"
  by (simp add: settled_def split: variant.splits)

lemma cache_trace [simp]: "cache V (s\<lparr>trace := tr\<rparr>) t = cache V s t"
  by (simp add: cache_def split: variant.splits)

lemma settled_emit [simp]: "settled V (emit e s) = settled V s"
  by (simp add: emit_def)

lemma cache_emit [simp]: "cache V (emit e s) t = cache V s t"
  by (simp add: emit_def)

text \<open>Under \<open>key_ready\<close> the one-time registration leaves the key in place.\<close>

lemma initTSD_ready:
  "key_ready P s \<Longrightarrow>
   initTSD P s = s\<lparr>theHeapKey := True, key_once := key_once s \<or> \<not> initializedTSD s, initializedTSD := True\<rparr>"
  by (auto simp: initTSD_def pthread_once_def make_heap_key_def pthread_key_create_def key_ready_def
      split: if_splits)

text \<open>With the slot set, \<^verbatim>\<open>getCustomHeap\<close> answers the slot and changes nothing.\<close>

lemma getCustomHeap_cached:
  "settled V s \<Longrightarrow> cache V s t \<noteq> NULL \<Longrightarrow> getCustomHeap V P t s = Some (cache V s t, s)"
  by (cases V)
     (auto simp: settled_def cache_def getCustomHeap_def getCustomHeap_inline_def
        getCustomHeap_keyed_def initTSD_def pthread_getspecific_def Let_def)

text \<open>In any usable state \<^verbatim>\<open>getCustomHeap\<close> returns, and this is what it leaves.\<close>

lemma getCustomHeap_first:
  assumes "tls_ready V P s"
  shows "\<exists>h s1. getCustomHeap V P t s = Some (h, s1) \<and> h \<noteq> NULL \<and> cache V s1 t = h \<and> settled V s1
           \<and> (cache V s t \<noteq> NULL \<longrightarrow> h = cache V s t)
           \<and> packages s1 = packages s \<and> anyThreadCreated s1 = anyThreadCreated s
           \<and> forcedTLAB s1 = forcedTLAB s
           \<and> trace s1 = trace s @ construct_events V s t h"
proof (cases V)
  case Inline
  then show ?thesis
    by (auto simp: settled_def cache_def getCustomHeap_def getCustomHeap_inline_def
        initializeCustomHeap_inline_def construct_events_def emit_def Let_def)
next
  case Keyed
  with assms have r: "key_ready P s" by (simp add: tls_ready_def)
  show ?thesis
    using Keyed
    by (auto simp: settled_def cache_def getCustomHeap_def getCustomHeap_keyed_def
        initTSD_ready [OF r] initializeCustomHeap_keyed_def pthread_getspecific_def
        pthread_setspecific_def pool_malloc_def construct_events_def emit_def Let_def)
qed

lemma exitRoutine_cached:
  "settled V s \<Longrightarrow> cache V s t \<noteq> NULL \<Longrightarrow>
   exitRoutine V P t s = Some (s\<lparr>trace := trace s @ [Clear t (cache V s t), ReleaseHeap t]\<rparr>)"
  by (simp add: exitRoutine_def getCustomHeap_cached emit_def)

text \<open>A body that only uses the allocator returns its value; each use is one event.\<close>

lemma run_body_plain:
  "settled V s \<Longrightarrow> cache V s t \<noteq> NULL \<Longrightarrow> set stmts \<subseteq> {UseHeap} \<Longrightarrow>
   run_body V P t stmts r s =
     Some (Returned r, s\<lparr>trace := trace s @ replicate (length stmts) (UseCache t (cache V s t))\<rparr>)"
proof (induction stmts arbitrary: s)
  case Nil
  then show ?case by simp
next
  case (Cons x stmts)
  from Cons.prems have x: "x = UseHeap" and rest: "set stmts \<subseteq> {UseHeap}" by auto
  have "run_body V P t (x # stmts) r s = run_body V P t stmts r (emit (UseCache t (cache V s t)) s)"
    using Cons.prems by (simp add: x getCustomHeap_cached)
  also have "\<dots> = Some (Returned r, s\<lparr>trace := trace s @ replicate (length (x # stmts)) (UseCache t (cache V s t))\<rparr>)"
    using Cons.prems rest by (simp add: Cons.IH emit_def replicate_append_same)
  finally show ?case .
qed

text \<open>A body that calls \<^verbatim>\<open>pthread_exit\<close> ends in that call; what follows it never runs.\<close>

lemma run_body_exit:
  "settled V s \<Longrightarrow> cache V s t \<noteq> NULL \<Longrightarrow> set stmts \<subseteq> {UseHeap} \<Longrightarrow>
   run_body V P t (stmts @ CallPthreadExit v # rest) r s =
     pthread_exit V P t v (s\<lparr>trace := trace s @ replicate (length stmts) (UseCache t (cache V s t))\<rparr>)"
proof (induction stmts arbitrary: s)
  case Nil
  then show ?case by simp
next
  case (Cons x stmts)
  from Cons.prems have x: "x = UseHeap" and rest: "set stmts \<subseteq> {UseHeap}" by auto
  have "run_body V P t ((x # stmts) @ CallPthreadExit v # rest) r s
        = run_body V P t (stmts @ CallPthreadExit v # rest) r (emit (UseCache t (cache V s t)) s)"
    using Cons.prems by (simp add: x getCustomHeap_cached)
  also have "\<dots> = pthread_exit V P t v (s\<lparr>trace := trace s @ replicate (length (x # stmts)) (UseCache t (cache V s t))\<rparr>)"
    using Cons.prems rest by (simp add: Cons.IH emit_def replicate_append_same)
  finally show ?case .
qed

text \<open>
  The wrapper around a body that returns: the state after its first
  \<^verbatim>\<open>getCustomHeap\<close>, then the lease, the body, the flush and the release.
\<close>

lemma startMeUp_returns:
  assumes "tls_ready V P s" "packages s a = Some (f, arg)" "C f arg = (stmts, r)"
    "set stmts \<subseteq> {UseHeap}"
  shows "\<exists>h s1. getCustomHeap V P t s = Some (h, s1) \<and> h \<noteq> NULL \<and> cache V s1 t = h \<and> settled V s1
           \<and> startMeUp V P C t a s =
               Some (Returned r,
                 s1\<lparr>trace := trace s1 @ [FindUnusedHeap t, CallEntry t f arg]
                    @ replicate (length stmts) (UseCache t h)
                    @ [EntryReturned t r, Clear t h, ReleaseHeap t]\<rparr>)"
proof -
  from getCustomHeap_first [OF assms(1), of t] obtain h s1 where
    g: "getCustomHeap V P t s = Some (h, s1)" and h: "h \<noteq> NULL" and c: "cache V s1 t = h"
    and st: "settled V s1" and pk: "packages s1 = packages s"
    by blast
  have "startMeUp V P C t a s =
               Some (Returned r,
                 s1\<lparr>trace := trace s1 @ [FindUnusedHeap t, CallEntry t f arg]
                    @ replicate (length stmts) (UseCache t h)
                    @ [EntryReturned t r, Clear t h, ReleaseHeap t]\<rparr>)"
    using h c st assms(2-4)
    by (simp add: startMeUp_def g pk emit_def run_body_plain exitRoutine_cached)
  with g h c st show ?thesis by blast
qed

text \<open>The wrapper around a body that calls \<^verbatim>\<open>pthread_exit\<close>, on a POSIX platform.\<close>

lemma startMeUp_exits:
  assumes "tls_ready V P s" "packages s a = Some (f, arg)"
    "C f arg = (stmts @ CallPthreadExit v # rest, r)" "set stmts \<subseteq> {UseHeap}"
    "real_pthread_exit P = thread_end V"
  shows "\<exists>h s1. getCustomHeap V P t s = Some (h, s1) \<and> h \<noteq> NULL \<and> cache V s1 t = h \<and> settled V s1
           \<and> startMeUp V P C t a s =
               Some (thread_end V t v
                 (s1\<lparr>trace := trace s1 @ [FindUnusedHeap t, CallEntry t f arg]
                    @ replicate (length stmts) (UseCache t h)
                    @ [Clear t h, ReleaseHeap t]\<rparr>))"
proof -
  from getCustomHeap_first [OF assms(1), of t] obtain h s1 where
    g: "getCustomHeap V P t s = Some (h, s1)" and h: "h \<noteq> NULL" and c: "cache V s1 t = h"
    and st: "settled V s1" and pk: "packages s1 = packages s"
    by blast
  have "startMeUp V P C t a s =
               Some (thread_end V t v
                 (s1\<lparr>trace := trace s1 @ [FindUnusedHeap t, CallEntry t f arg]
                    @ replicate (length stmts) (UseCache t h)
                    @ [Clear t h, ReleaseHeap t]\<rparr>))"
    using h c st assms(2-5)
    by (simp add: startMeUp_def g pk emit_def run_body_exit pthread_exit_def exitRoutine_cached
        after_real_exit_def thread_end_def Let_def)
  with g h c st show ?thesis by blast
qed

text \<open>The end of a thread whose slot is set.\<close>

lemma thread_end_cached:
  "settled V s \<Longrightarrow> cache V s t = h \<Longrightarrow> h \<noteq> NULL \<Longrightarrow>
   thread_end V t v s =
     (ThreadExit v,
      s\<lparr>specific := (if V = Keyed then (specific s)(t := NULL) else specific s),
        trace := trace s @ [ThreadEnd t v] @ destructor_events V t h\<rparr>)"
  by (cases V)
     (auto simp: thread_end_def settled_def cache_def deleteThatHeap_def emit_def
        destructor_events_def Let_def)

text \<open>The definitions of the model, for running it on the examples.\<close>

lemmas model_defs =
  thread_main_def startMeUp_def pthread_exit_def exitRoutine_def getCustomHeap_def
  getCustomHeap_inline_def initializeCustomHeap_inline_def getCustomHeap_keyed_def
  initializeCustomHeap_keyed_def initTSD_def pthread_once_def make_heap_key_def
  pthread_key_create_def pthread_getspecific_def pthread_setspecific_def pool_malloc_def
  deleteThatHeap_def thread_end_def after_real_exit_def posix_def glibc_def emit_def
  example_prog_def example_prog_exit_def example_state_def boot_def Let_def

lemma example_ready: "tls_ready V (posix V 0 rc) example_state"
  by (simp add: tls_ready_def key_ready_def posix_def example_state_def boot_def
      split: variant.splits)

lemma settled_ready: "settled V s \<Longrightarrow> tls_ready V P s"
  by (simp add: settled_def tls_ready_def key_ready_def split: variant.splits)

lemma constructed_for_append [simp]:
  "constructed_for t (xs @ ys) = constructed_for t xs @ constructed_for t ys"
  by (simp add: constructed_for_def)

lemma constructed_for_other [simp]:
  "u \<noteq> t \<Longrightarrow> constructed_for t (construct_events V s u h) = []"
  by (simp add: constructed_for_def construct_events_def split: variant.splits)

text \<open>A call by any thread leaves the set slot of thread \<open>t\<close> and its TLAB alone.\<close>

lemma getCustomHeap_keeps:
  assumes "settled V s" and "cache V s t = h" and "h \<noteq> NULL"
  shows "\<exists>h' s1. getCustomHeap V P u s = Some (h', s1) \<and> settled V s1 \<and> cache V s1 t = h
           \<and> (u = t \<longrightarrow> h' = h)
           \<and> constructed_for t (trace s1) = constructed_for t (trace s)"
proof (cases "u = t")
  case True
  with assms show ?thesis
    by (simp add: getCustomHeap_cached)
next
  case False
  from getCustomHeap_first [OF settled_ready [OF assms(1)], of P u] obtain h' s1 where
    g: "getCustomHeap V P u s = Some (h', s1)" and st: "settled V s1"
    and tr: "trace s1 = trace s @ construct_events V s u h'"
    by blast
  have c: "cache V s1 t = cache V s t"
  proof (cases V)
    case Inline
    with g False show ?thesis
      by (auto simp: getCustomHeap_def getCustomHeap_inline_def initializeCustomHeap_inline_def
          cache_def emit_def Let_def split: if_splits)
  next
    case Keyed
    with assms(1) have i: "initTSD P s = s" and k: "theHeapKey s"
      by (simp_all add: settled_def initTSD_def)
    from g False Keyed k show ?thesis
      by (auto simp: getCustomHeap_def getCustomHeap_keyed_def initializeCustomHeap_keyed_def i
          pthread_getspecific_def pthread_setspecific_def pool_malloc_def cache_def emit_def
          Let_def split: if_splits)
  qed
  from g st c tr False assms(2) show ?thesis
    by simp
qed

lemma exitRoutine_keeps:
  assumes "settled V s" and "cache V s t = h" and "h \<noteq> NULL"
  shows "\<exists>s1. exitRoutine V P u s = Some s1 \<and> settled V s1 \<and> cache V s1 t = h
           \<and> constructed_for t (trace s1) = constructed_for t (trace s)"
proof -
  from getCustomHeap_keeps [OF assms, of P u] obtain h' s0 where
    g: "getCustomHeap V P u s = Some (h', s0)" and st: "settled V s0" and c: "cache V s0 t = h"
    and k: "constructed_for t (trace s0) = constructed_for t (trace s)"
    by blast
  have "exitRoutine V P u s = Some (emit (ReleaseHeap u) (emit (Clear u h') s0))"
    by (simp add: exitRoutine_def g)
  moreover have "constructed_for t (trace (emit (ReleaseHeap u) (emit (Clear u h') s0)))
                   = constructed_for t (trace s)"
    by (simp add: emit_def k) (simp add: constructed_for_def)
  ultimately show ?thesis using st c by simp
qed

lemma answers_to_Cons:
  "answers_to t ((u, p) # rs) = (if u = t then p # answers_to t rs else answers_to t rs)"
  by (simp add: answers_to_def)

text \<open>While the slot of \<open>t\<close> is set, every answer to \<open>t\<close> is the slot.\<close>

lemma run_ops_stable:
  "settled V s \<Longrightarrow> cache V s t = h \<Longrightarrow> h \<noteq> NULL \<Longrightarrow>
   \<exists>rs s2. run_ops V P ops s = Some (rs, s2) \<and> set (answers_to t rs) \<subseteq> {h}
          \<and> settled V s2 \<and> cache V s2 t = h
          \<and> constructed_for t (trace s2) = constructed_for t (trace s)"
proof (induction ops arbitrary: s)
  case Nil
  then show ?case by (simp add: answers_to_def)
next
  case (Cons x ops)
  show ?case
  proof (cases x)
    case (Get u)
    from getCustomHeap_keeps [OF Cons.prems, of P u] obtain h' s1 where
      g: "getCustomHeap V P u s = Some (h', s1)" and st: "settled V s1" and c: "cache V s1 t = h"
      and same: "u = t \<longrightarrow> h' = h"
      and k: "constructed_for t (trace s1) = constructed_for t (trace s)"
      by blast
    from Cons.IH [OF st c Cons.prems(3)] obtain rs s2 where
      r: "run_ops V P ops s1 = Some (rs, s2)" and a: "set (answers_to t rs) \<subseteq> {h}"
      and st2: "settled V s2" and c2: "cache V s2 t = h"
      and k2: "constructed_for t (trace s2) = constructed_for t (trace s1)"
      by blast
    have "run_ops V P (x # ops) s = Some ((u, h') # rs, s2)"
      by (simp add: Get g r)
    moreover have "set (answers_to t ((u, h') # rs)) \<subseteq> {h}"
      using a same by (simp add: answers_to_Cons)
    ultimately show ?thesis using st2 c2 k k2 by simp
  next
    case (Use u)
    from getCustomHeap_keeps [OF Cons.prems, of P u] obtain h' s1 where
      g: "getCustomHeap V P u s = Some (h', s1)" and st: "settled V s1" and c: "cache V s1 t = h"
      and same: "u = t \<longrightarrow> h' = h"
      and k: "constructed_for t (trace s1) = constructed_for t (trace s)"
      by blast
    let ?s = "emit (UseCache u h') s1"
    have st': "settled V ?s" and c': "cache V ?s t = h"
      using st c by simp_all
    have k': "constructed_for t (trace ?s) = constructed_for t (trace s)"
      by (simp add: emit_def k) (simp add: constructed_for_def)
    from Cons.IH [OF st' c' Cons.prems(3)] obtain rs s2 where
      r: "run_ops V P ops ?s = Some (rs, s2)" and a: "set (answers_to t rs) \<subseteq> {h}"
      and st2: "settled V s2" and c2: "cache V s2 t = h"
      and k2: "constructed_for t (trace s2) = constructed_for t (trace ?s)"
      by blast
    have "run_ops V P (x # ops) s = Some ((u, h') # rs, s2)"
      by (simp add: Use g r)
    moreover have "set (answers_to t ((u, h') # rs)) \<subseteq> {h}"
      using a same by (simp add: answers_to_Cons)
    ultimately show ?thesis using st2 c2 k' k2 by simp
  next
    case (Lease u)
    let ?s = "emit (FindUnusedHeap u) s"
    have st': "settled V ?s" and c': "cache V ?s t = h"
      using Cons.prems by simp_all
    have k': "constructed_for t (trace ?s) = constructed_for t (trace s)"
      by (simp add: emit_def) (simp add: constructed_for_def)
    from Cons.IH [OF st' c' Cons.prems(3)] obtain rs s2 where
      r: "run_ops V P ops ?s = Some (rs, s2)" and a: "set (answers_to t rs) \<subseteq> {h}"
      and st2: "settled V s2" and c2: "cache V s2 t = h"
      and k2: "constructed_for t (trace s2) = constructed_for t (trace ?s)"
      by blast
    have "run_ops V P (x # ops) s = Some (rs, s2)"
      by (simp add: Lease r)
    then show ?thesis using a st2 c2 k' k2 by simp
  next
    case (Teardown u)
    from exitRoutine_keeps [OF Cons.prems, of P u] obtain s1 where
      e: "exitRoutine V P u s = Some s1" and st: "settled V s1" and c: "cache V s1 t = h"
      and k: "constructed_for t (trace s1) = constructed_for t (trace s)"
      by blast
    from Cons.IH [OF st c Cons.prems(3)] obtain rs s2 where
      r: "run_ops V P ops s1 = Some (rs, s2)" and a: "set (answers_to t rs) \<subseteq> {h}"
      and st2: "settled V s2" and c2: "cache V s2 t = h"
      and k2: "constructed_for t (trace s2) = constructed_for t (trace s1)"
      by blast
    have "run_ops V P (x # ops) s = Some (rs, s2)"
      by (simp add: Teardown e r)
    then show ?thesis using a st2 c2 k k2 by simp
  qed
qed

text \<open>\<open>example_running\<close> is a state the code reaches.\<close>

lemma example_running_reached:
  "map_option snd (run_ops Keyed (posix Keyed 0 0) [Get 2, Lease 2, Use 2] example_state)
     = Some example_running"
  by (simp add: model_defs example_running_def fun_eq_iff)

lemma example_running_ready: "tls_ready Keyed (posix Keyed 0 rc) example_running"
  by (simp add: tls_ready_def key_ready_def example_running_def)

section \<open>The claims\<close>

text \<open>
  C4. For every intercepted thread creation, the value returned by the caller-supplied
  real entry function is preserved unchanged as the thread's overall result, and the
  teardown (flush of the Local Cache and release of the heap slot) executes regardless
  of what that entry function returns.

  For every value \<open>r\<close> the entry function returns, \<^verbatim>\<open>startMeUp\<close> returns \<open>r\<close>, the
  thread ends with \<open>r\<close>, and the last three events of the wrapper are the return of the
  entry function, the flush of the thread's TLAB and the release.
\<close>

theorem startMeUp_preserves_result:
  assumes "tls_ready V P s" and "packages s a = Some (f, arg)" and "C f arg = (stmts, r)"
    and "set stmts \<subseteq> {UseHeap}"
  shows "\<exists>s' h pre. startMeUp V P C t a s = Some (Returned r, s')
           \<and> trace s' = pre @ [EntryReturned t r, Clear t h, ReleaseHeap t]
           \<and> h \<noteq> NULL \<and> cache V s' t = h
           \<and> map_option fst (thread_main V P C t a s) = Some (ThreadExit r)"
proof -
  from startMeUp_returns [where C = C and t = t, OF assms] obtain h s1 where
    h: "h \<noteq> NULL" and c: "cache V s1 t = h"
    and run: "startMeUp V P C t a s =
               Some (Returned r,
                 s1\<lparr>trace := trace s1 @ [FindUnusedHeap t, CallEntry t f arg]
                    @ replicate (length stmts) (UseCache t h)
                    @ [EntryReturned t r, Clear t h, ReleaseHeap t]\<rparr>)"
    by blast
  let ?s' = "s1\<lparr>trace := trace s1 @ [FindUnusedHeap t, CallEntry t f arg]
                    @ replicate (length stmts) (UseCache t h)
                    @ [EntryReturned t r, Clear t h, ReleaseHeap t]\<rparr>"
  have tr: "trace ?s' = (trace s1 @ [FindUnusedHeap t, CallEntry t f arg]
                    @ replicate (length stmts) (UseCache t h))
                    @ [EntryReturned t r, Clear t h, ReleaseHeap t]"
    by simp
  have tm: "map_option fst (thread_main V P C t a s) = Some (ThreadExit r)"
    by (simp add: thread_main_def run thread_end_def Let_def)
  from run tr h c tm show ?thesis
    by (intro exI [of _ ?s'] exI [of _ h] exI) (simp only: cache_trace, simp)
qed

theorem startMeUp_preserves_result_witness:
  "tls_ready Keyed (posix Keyed 0 0) example_state
   \<and> packages example_state (Obj 0) = Some (5, 7)
   \<and> example_prog 5 7 = ([UseHeap], 42)
   \<and> (\<exists>s' h pre. startMeUp Keyed (posix Keyed 0 0) example_prog 1 (Obj 0) example_state
                     = Some (Returned 42, s')
           \<and> trace s' = pre @ [EntryReturned 1 42, Clear 1 h, ReleaseHeap 1]
           \<and> h \<noteq> NULL \<and> cache Keyed s' 1 = h
           \<and> map_option fst (thread_main Keyed (posix Keyed 0 0) example_prog 1 (Obj 0) example_state)
               = Some (ThreadExit 42))"
proof -
  have a: "tls_ready Keyed (posix Keyed 0 0) example_state"
    by (rule example_ready)
  have b: "packages example_state (Obj 0) = Some (5, 7)"
    by (simp add: example_state_def)
  have c: "example_prog 5 7 = ([UseHeap], 42)"
    by (simp add: example_prog_def)
  have d: "set [UseHeap] \<subseteq> {UseHeap}" by simp
  from startMeUp_preserves_result [where C = example_prog and t = 1, OF a b c d] a b c
  show ?thesis by simp
qed

text \<open>
  C3. For every thread, \<^verbatim>\<open>getCustomHeap()\<close> (the spec's \<^verbatim>\<open>getLocalCache()\<close>) is
  idempotent within that thread: the first call constructs the Local Cache for that
  thread, and every repeated call returns the same instance as the first call, in both
  the inline and the keyed storage variant.

  This fails in the keyed variant when the one-time registration has failed, which
  \<^verbatim>\<open>make_heap_key\<close> ignores (see C7). On a thread library that tolerates the missing
  key, every lookup answers \<^verbatim>\<open>NULL\<close> and the store of line 137 is refused, so each
  call allocates and constructs a TLAB of its own: three calls by thread 2 answer
  three different pointers.
\<close>

theorem repeated_getCustomHeap_counterexample:
  "map_option fst (run_ops Keyed (glibc Keyed 11 0) [Get 2, Get 2, Get 2] boot)
     = Some [(2, Obj 0), (2, Obj 1), (2, Obj 2)]
   \<and> map_option (constructed_for 2 \<circ> trace \<circ> snd)
         (run_ops Keyed (glibc Keyed 11 0) [Get 2, Get 2, Get 2] boot)
     = Some [Obj 0, Obj 1, Obj 2]"
  by (simp add: model_defs constructed_for_def)

text \<open>
  C3 as amended: for every thread, \<^verbatim>\<open>getCustomHeap()\<close> is idempotent within that
  thread in the inline variant, and in the keyed variant when the one-time key
  registration has succeeded: the first call constructs the Local Cache for that
  thread, and every repeated call returns the same instance as the first call.

  The first call returns a pointer \<open>h\<close> that is not \<^verbatim>\<open>NULL\<close> and is the thread's slot
  from then on; it is the slot the thread had, if it had one, and otherwise the call
  constructs it (\<open>construct_events\<close>). Whatever the threads then do with their TLABs
  (\<open>ops\<close>: calls, uses of the allocator, leases and teardowns, by this thread and by
  others), every answer to thread \<open>t\<close> is \<open>h\<close>, no further TLAB is constructed for
  \<open>t\<close>, and a call after all of it returns \<open>h\<close> and changes nothing.
\<close>

theorem getCustomHeap_idempotent:
  assumes "tls_ready V P s"
  shows "\<exists>h s1 rs s2. getCustomHeap V P t s = Some (h, s1) \<and> h \<noteq> NULL
           \<and> cache V s1 t = h \<and> (cache V s t = NULL \<or> h = cache V s t)
           \<and> trace s1 = trace s @ construct_events V s t h
           \<and> getCustomHeap V P t s1 = Some (h, s1)
           \<and> run_ops V P ops s1 = Some (rs, s2)
           \<and> set (answers_to t rs) \<subseteq> {h}
           \<and> cache V s2 t = h
           \<and> constructed_for t (trace s2) = constructed_for t (trace s1)
           \<and> getCustomHeap V P t s2 = Some (h, s2)"
proof -
  from getCustomHeap_first [OF assms, of t] obtain h s1 where
    g: "getCustomHeap V P t s = Some (h, s1)" and h: "h \<noteq> NULL" and c: "cache V s1 t = h"
    and st: "settled V s1" and old: "cache V s t \<noteq> NULL \<longrightarrow> h = cache V s t"
    and tr: "trace s1 = trace s @ construct_events V s t h"
    by blast
  from old have old': "cache V s t = NULL \<or> h = cache V s t"
    by blast
  from st c h have again: "getCustomHeap V P t s1 = Some (h, s1)"
    using getCustomHeap_cached [of V s1 t P] by simp
  from run_ops_stable [OF st c h, of P ops] obtain rs s2 where
    r: "run_ops V P ops s1 = Some (rs, s2)" and a: "set (answers_to t rs) \<subseteq> {h}"
    and st2: "settled V s2" and c2: "cache V s2 t = h"
    and k: "constructed_for t (trace s2) = constructed_for t (trace s1)"
    by blast
  from st2 c2 h have last: "getCustomHeap V P t s2 = Some (h, s2)"
    using getCustomHeap_cached [of V s2 t P] by simp
  from g h c old' tr again r a c2 k last show ?thesis
    by blast
qed

theorem getCustomHeap_idempotent_witness:
  "tls_ready Keyed (posix Keyed 0 0) boot
   \<and> (\<exists>h s1 rs s2. getCustomHeap Keyed (posix Keyed 0 0) 2 boot = Some (h, s1) \<and> h \<noteq> NULL
           \<and> cache Keyed s1 2 = h \<and> (cache Keyed boot 2 = NULL \<or> h = cache Keyed boot 2)
           \<and> trace s1 = trace boot @ construct_events Keyed boot 2 h
           \<and> getCustomHeap Keyed (posix Keyed 0 0) 2 s1 = Some (h, s1)
           \<and> run_ops Keyed (posix Keyed 0 0) [Use 2, Get 3, Lease 2, Get 2, Teardown 2, Get 2] s1
               = Some (rs, s2)
           \<and> set (answers_to 2 rs) \<subseteq> {h}
           \<and> cache Keyed s2 2 = h
           \<and> constructed_for 2 (trace s2) = constructed_for 2 (trace s1)
           \<and> getCustomHeap Keyed (posix Keyed 0 0) 2 s2 = Some (h, s2))
   \<and> map_option fst
        (run_ops Keyed (posix Keyed 0 0) [Get 2, Use 2, Get 3, Lease 2, Get 2, Teardown 2, Get 2] boot)
       = Some [(2, Obj 0), (2, Obj 0), (3, Obj 1), (2, Obj 0), (2, Obj 0)]
   \<and> map_option (trace \<circ> snd)
        (run_ops Keyed (posix Keyed 0 0) [Get 2, Use 2, Get 3, Lease 2, Get 2, Teardown 2, Get 2] boot)
       = Some [PoolMalloc 2 (Obj 0), Construct 2 (Obj 0), UseCache 2 (Obj 0),
               PoolMalloc 3 (Obj 1), Construct 3 (Obj 1), FindUnusedHeap 2,
               Clear 2 (Obj 0), ReleaseHeap 2]"
proof -
  have a: "tls_ready Keyed (posix Keyed 0 0) boot"
    by (simp add: tls_ready_def key_ready_def posix_def boot_def)
  have e: "map_option fst
        (run_ops Keyed (posix Keyed 0 0) [Get 2, Use 2, Get 3, Lease 2, Get 2, Teardown 2, Get 2] boot)
       = Some [(2, Obj 0), (2, Obj 0), (3, Obj 1), (2, Obj 0), (2, Obj 0)]"
    by (simp add: model_defs)
  have f: "map_option (trace \<circ> snd)
        (run_ops Keyed (posix Keyed 0 0) [Get 2, Use 2, Get 3, Lease 2, Get 2, Teardown 2, Get 2] boot)
       = Some [PoolMalloc 2 (Obj 0), Construct 2 (Obj 0), UseCache 2 (Obj 0),
               PoolMalloc 3 (Obj 1), Construct 3 (Obj 1), FindUnusedHeap 2,
               Clear 2 (Obj 0), ReleaseHeap 2]"
    by (simp add: model_defs)
  from getCustomHeap_idempotent
    [OF a, of 2 "[Use 2, Get 3, Lease 2, Get 2, Teardown 2, Get 2]"] a e f
  show ?thesis by blast
qed

text \<open>
  C5. The intercepted \<^verbatim>\<open>pthread_exit\<close> performs the full teardown (flush the Local
  Cache, release the heap slot) before forwarding to the real platform exit
  implementation, and it never returns control to its caller.

  The teardown flushes the TLAB \<open>h\<close> that is the thread's slot (the one the thread
  had, if it had one) and releases; the real function is called on the state \<open>s1\<close>
  the teardown has left, whose trace ends with the flush and the release; and whatever
  the real function does, even if it returns, the call does not end as \<open>Returned\<close>.
\<close>

theorem pthread_exit_teardown_then_forward:
  assumes "tls_ready V P s"
  shows "\<exists>h s1. exitRoutine V P t s = Some s1 \<and> h \<noteq> NULL
           \<and> cache V s1 t = h \<and> (cache V s t = NULL \<or> h = cache V s t)
           \<and> trace s1 = trace s @ construct_events V s t h @ [Clear t h, ReleaseHeap t]
           \<and> pthread_exit V P t v s = Some (after_real_exit (real_pthread_exit P t v s1))
           \<and> (\<forall>x. fst (after_real_exit (real_pthread_exit P t v s1)) \<noteq> Returned x)"
proof -
  from getCustomHeap_first [OF assms, of t] obtain h s0 where
    g: "getCustomHeap V P t s = Some (h, s0)" and h: "h \<noteq> NULL" and c: "cache V s0 t = h"
    and old: "cache V s t \<noteq> NULL \<longrightarrow> h = cache V s t"
    and tr: "trace s0 = trace s @ construct_events V s t h"
    by blast
  let ?s1 = "emit (ReleaseHeap t) (emit (Clear t h) s0)"
  have e: "exitRoutine V P t s = Some ?s1"
    by (simp add: exitRoutine_def g)
  have c1: "cache V ?s1 t = h"
    using c by simp
  from old have old': "cache V s t = NULL \<or> h = cache V s t"
    by blast
  have t1: "trace ?s1 = trace s @ construct_events V s t h @ [Clear t h, ReleaseHeap t]"
    by (simp add: emit_def tr)
  have p: "pthread_exit V P t v s = Some (after_real_exit (real_pthread_exit P t v ?s1))"
    by (simp add: pthread_exit_def e)
  have n: "\<forall>x. fst (after_real_exit (real_pthread_exit P t v ?s1)) \<noteq> Returned x"
    by (simp add: after_real_exit_def split: prod.splits outcome.splits)
  from e h c1 old' t1 p n show ?thesis by blast
qed

theorem pthread_exit_teardown_then_forward_witness:
  "tls_ready Keyed (posix Keyed 0 0) example_running
   \<and> (\<exists>h s1. exitRoutine Keyed (posix Keyed 0 0) 2 example_running = Some s1 \<and> h \<noteq> NULL
           \<and> cache Keyed s1 2 = h
           \<and> (cache Keyed example_running 2 = NULL \<or> h = cache Keyed example_running 2)
           \<and> trace s1 = trace example_running @ construct_events Keyed example_running 2 h
                           @ [Clear 2 h, ReleaseHeap 2]
           \<and> pthread_exit Keyed (posix Keyed 0 0) 2 9 example_running
               = Some (after_real_exit (real_pthread_exit (posix Keyed 0 0) 2 9 s1))
           \<and> (\<forall>x. fst (after_real_exit (real_pthread_exit (posix Keyed 0 0) 2 9 s1)) \<noteq> Returned x))
   \<and> cache Keyed example_running 2 = Obj 1
   \<and> map_option fst (pthread_exit Keyed (posix Keyed 0 0) 2 9 example_running) = Some (ThreadExit 9)
   \<and> map_option (trace \<circ> snd) (pthread_exit Keyed (posix Keyed 0 0) 2 9 example_running)
       = Some [PoolMalloc 2 (Obj 1), Construct 2 (Obj 1), FindUnusedHeap 2, UseCache 2 (Obj 1),
               Clear 2 (Obj 1), ReleaseHeap 2, ThreadEnd 2 9,
               Clear 2 (Obj 1), PoolFree 2 (Obj 1), ReleaseHeap 2]"
proof -
  have a: "tls_ready Keyed (posix Keyed 0 0) example_running"
    by (rule example_running_ready)
  have b: "cache Keyed example_running 2 = Obj 1"
    by (simp add: cache_def example_running_def)
  have e: "map_option fst (pthread_exit Keyed (posix Keyed 0 0) 2 9 example_running)
             = Some (ThreadExit 9)"
    by (simp add: model_defs example_running_def)
  have f: "map_option (trace \<circ> snd) (pthread_exit Keyed (posix Keyed 0 0) 2 9 example_running)
       = Some [PoolMalloc 2 (Obj 1), Construct 2 (Obj 1), FindUnusedHeap 2, UseCache 2 (Obj 1),
               Clear 2 (Obj 1), ReleaseHeap 2, ThreadEnd 2 9,
               Clear 2 (Obj 1), PoolFree 2 (Obj 1), ReleaseHeap 2]"
    by (simp add: model_defs example_running_def)
  from pthread_exit_teardown_then_forward [OF a, of 2 9] a b e f show ?thesis
    by blast
qed

text \<open>
  C10. The teardown routine is unconditional with respect to prior use: if the
  intercepted \<^verbatim>\<open>pthread_exit\<close> is called from a thread whose Local Cache was never
  constructed (a thread that never allocated), the teardown first constructs a Local
  Cache via \<^verbatim>\<open>getCustomHeap\<close>, then clears it, and then calls \<^verbatim>\<open>releaseHeap\<close> on the
  Global Heap Pool even though that thread never leased a heap slot.

  For a thread whose slot is unset and that has no \<^verbatim>\<open>findUnusedHeap\<close> in the trace,
  the teardown constructs a TLAB \<open>h\<close> (allocating it first in the keyed variant),
  clears \<open>h\<close> and releases, still with no \<^verbatim>\<open>findUnusedHeap\<close> of that thread; the
  interposed \<^verbatim>\<open>pthread_exit\<close> then calls the real one on that state.
\<close>

theorem exitRoutine_constructs_unused_cache:
  assumes "tls_ready V P s" and "cache V s t = NULL" and "FindUnusedHeap t \<notin> set (trace s)"
  shows "\<exists>h s1. exitRoutine V P t s = Some s1 \<and> h \<noteq> NULL
           \<and> trace s1 = trace s @ (case V of Inline \<Rightarrow> [] | Keyed \<Rightarrow> [PoolMalloc t h])
                           @ [Construct t h, Clear t h, ReleaseHeap t]
           \<and> FindUnusedHeap t \<notin> set (trace s1)
           \<and> pthread_exit V P t v s = Some (after_real_exit (real_pthread_exit P t v s1))"
proof -
  from getCustomHeap_first [OF assms(1), of t] obtain h s0 where
    g: "getCustomHeap V P t s = Some (h, s0)" and h: "h \<noteq> NULL"
    and tr: "trace s0 = trace s @ construct_events V s t h"
    by blast
  let ?s1 = "emit (ReleaseHeap t) (emit (Clear t h) s0)"
  have e: "exitRoutine V P t s = Some ?s1"
    by (simp add: exitRoutine_def g)
  have t1: "trace ?s1 = trace s @ (case V of Inline \<Rightarrow> [] | Keyed \<Rightarrow> [PoolMalloc t h])
                           @ [Construct t h, Clear t h, ReleaseHeap t]"
    using assms(2) by (simp add: emit_def tr construct_events_def split: variant.splits)
  have nl: "FindUnusedHeap t \<notin> set (trace ?s1)"
    using assms(3) by (simp add: t1 split: variant.splits)
  have p: "pthread_exit V P t v s = Some (after_real_exit (real_pthread_exit P t v ?s1))"
    by (simp add: pthread_exit_def e)
  from e h t1 nl p show ?thesis by blast
qed

theorem exitRoutine_constructs_unused_cache_witness:
  "tls_ready Keyed (posix Keyed 0 0) boot \<and> cache Keyed boot 2 = NULL
   \<and> FindUnusedHeap 2 \<notin> set (trace boot)
   \<and> (\<exists>h s1. exitRoutine Keyed (posix Keyed 0 0) 2 boot = Some s1 \<and> h \<noteq> NULL
           \<and> trace s1 = trace boot @ (case Keyed of Inline \<Rightarrow> [] | Keyed \<Rightarrow> [PoolMalloc 2 h])
                           @ [Construct 2 h, Clear 2 h, ReleaseHeap 2]
           \<and> FindUnusedHeap 2 \<notin> set (trace s1)
           \<and> pthread_exit Keyed (posix Keyed 0 0) 2 9 boot
               = Some (after_real_exit (real_pthread_exit (posix Keyed 0 0) 2 9 s1)))
   \<and> map_option trace (exitRoutine Keyed (posix Keyed 0 0) 2 boot)
       = Some [PoolMalloc 2 (Obj 0), Construct 2 (Obj 0), Clear 2 (Obj 0), ReleaseHeap 2]"
proof -
  have a: "tls_ready Keyed (posix Keyed 0 0) boot"
    by (simp add: tls_ready_def key_ready_def posix_def boot_def)
  have b: "cache Keyed boot 2 = NULL"
    by (simp add: cache_def boot_def)
  have c: "FindUnusedHeap 2 \<notin> set (trace boot)"
    by (simp add: boot_def)
  have e: "map_option trace (exitRoutine Keyed (posix Keyed 0 0) 2 boot)
       = Some [PoolMalloc 2 (Obj 0), Construct 2 (Obj 0), Clear 2 (Obj 0), ReleaseHeap 2]"
    by (simp add: exitRoutine_def getCustomHeap_def getCustomHeap_keyed_def initTSD_def
        pthread_once_def make_heap_key_def pthread_key_create_def posix_def boot_def
        pthread_getspecific_def initializeCustomHeap_keyed_def pool_malloc_def
        pthread_setspecific_def emit_def Let_def)
  from exitRoutine_constructs_unused_cache [OF a b c, of 9] a b c e show ?thesis
    by blast
qed

text \<open>
  C9. For every call to the intercepted \<^verbatim>\<open>pthread_create\<close>, the real
  \<^verbatim>\<open>pthread_create\<close> is invoked with the thread-handle and attribute arguments
  forwarded unchanged, with only the start routine replaced by the internal wrapper
  (the original routine and argument packaged for it); the intercepted call returns
  exactly the real call's return value; and the shared \<^verbatim>\<open>anyThreadCreated\<close> flag is
  set to true before the real creation call.

  The result of the call is the result of the real function, whatever that function
  is, applied to the caller's \<open>thread\<close> and \<open>attr\<close>, to \<^verbatim>\<open>startMeUp\<close> and to a
  pointer \<open>args\<close>, in a state \<open>s3\<close> in which the flag is set and \<open>args\<close> holds the
  pair of the caller's routine and argument.
\<close>

theorem pthread_create_forwards:
  assumes "tls_ready V P s"
  shows "\<exists>s3 args. pthread_create V P c thread attr start_routine arg s
                     = Some (real_pthread_create P c thread attr StartMeUp args s3)
           \<and> anyThreadCreated s3
           \<and> packages s3 args = Some (start_routine, arg)"
proof -
  have "\<exists>s1. (if forcedTLAB s then Some s
               else do { (_, s') \<leftarrow> getCustomHeap V P c s; Some (s'\<lparr>forcedTLAB := True\<rparr>) }) = Some s1"
  proof (cases "forcedTLAB s")
    case True
    then show ?thesis by simp
  next
    case False
    from getCustomHeap_first [OF assms, of c] obtain h s0 where
      "getCustomHeap V P c s = Some (h, s0)"
      by blast
    with False show ?thesis by simp
  qed
  then obtain s1 where s1: "(if forcedTLAB s then Some s
               else do { (_, s') \<leftarrow> getCustomHeap V P c s; Some (s'\<lparr>forcedTLAB := True\<rparr>) }) = Some s1"
    by blast
  let ?args = "Obj (next_obj s1)"
  let ?s3 = "s1\<lparr>anyThreadCreated := True,
                packages := (packages s1)(Obj (next_obj s1) \<mapsto> (start_routine, arg)),
                next_obj := Suc (next_obj s1)\<rparr>"
  have call: "pthread_create V P c thread attr start_routine arg s
                = Some (real_pthread_create P c thread attr StartMeUp ?args ?s3)"
    unfolding pthread_create_def s1 by (simp add: new_pair_def)
  have flag: "anyThreadCreated ?s3" by simp
  have pkg: "packages ?s3 ?args = Some (start_routine, arg)" by simp
  from call flag pkg show ?thesis by blast
qed

theorem pthread_create_forwards_witness:
  "tls_ready Inline (posix Inline 0 11) boot
   \<and> (\<exists>s3 args. pthread_create Inline (posix Inline 0 11) 0 3 4 5 7 boot
                     = Some (real_pthread_create (posix Inline 0 11) 0 3 4 StartMeUp args s3)
           \<and> anyThreadCreated s3
           \<and> packages s3 args = Some (5, 7))
   \<and> map_option fst (pthread_create Inline (posix Inline 0 11) 0 3 4 5 7 boot) = Some 11"
proof -
  have a: "tls_ready Inline (posix Inline 0 11) boot"
    by (simp add: tls_ready_def)
  have e: "map_option fst (pthread_create Inline (posix Inline 0 11) 0 3 4 5 7 boot) = Some 11"
    by (simp add: pthread_create_def getCustomHeap_def getCustomHeap_inline_def
        initializeCustomHeap_inline_def new_pair_def posix_def boot_def emit_def Let_def)
  from pthread_create_forwards [OF a, of 0 3 4 5 7] a e show ?thesis
    by blast
qed

text \<open>
  C6. Both thread-termination paths (the real entry function returning normally inside
  the wrapper, and an explicit call to the intercepted \<^verbatim>\<open>pthread_exit\<close> from within
  the thread body) invoke the identical teardown routine and have the same effect on
  the thread's Local Cache and on the Global Heap Pool's leased-slot state.

  Take a thread function that runs some statements and returns \<open>v\<close>, and one that
  runs the same statements and then calls \<^verbatim>\<open>pthread_exit\<close> with \<open>v\<close>. On a POSIX
  platform both threads end with \<open>v\<close>; the two traces share everything up to the
  teardown, then make the same calls (flush, release, end of thread, destructor), the
  return path with the one event more that marks the return of the entry function;
  the final states are equal apart from the trace, and the calls to the main heap and
  to the TLAB are the same lists.
\<close>

theorem exit_paths_same_teardown:
  assumes "tls_ready V P s" and "packages s a = Some (f, arg)"
    and "C f arg = (stmts, v)" and "C' f arg = (stmts @ CallPthreadExit v # rest, r')"
    and "set stmts \<subseteq> {UseHeap}" and "real_pthread_exit P = thread_end V"
  shows "\<exists>s_ret s_exit base h.
           thread_main V P C t a s = Some (ThreadExit v, s_ret)
         \<and> thread_main V P C' t a s = Some (ThreadExit v, s_exit)
         \<and> trace s_ret = base @ [EntryReturned t v, Clear t h, ReleaseHeap t, ThreadEnd t v]
                            @ destructor_events V t h
         \<and> trace s_exit = base @ [Clear t h, ReleaseHeap t, ThreadEnd t v]
                            @ destructor_events V t h
         \<and> s_exit\<lparr>trace := []\<rparr> = s_ret\<lparr>trace := []\<rparr>
         \<and> pool_calls (trace s_exit) = pool_calls (trace s_ret)
         \<and> cache_calls (trace s_exit) = cache_calls (trace s_ret)"
proof -
  from getCustomHeap_first [OF assms(1), of t] obtain h s1 where
    g: "getCustomHeap V P t s = Some (h, s1)" and h: "h \<noteq> NULL" and c: "cache V s1 t = h"
    and st: "settled V s1"
    by blast
  let ?base = "trace s1 @ [FindUnusedHeap t, CallEntry t f arg] @ replicate (length stmts) (UseCache t h)"
  let ?a = "s1\<lparr>trace := ?base @ [EntryReturned t v, Clear t h, ReleaseHeap t]\<rparr>"
  let ?b = "s1\<lparr>trace := ?base @ [Clear t h, ReleaseHeap t]\<rparr>"
  from startMeUp_returns [where C = C and t = t, OF assms(1,2,3,5)] g
  have ret: "startMeUp V P C t a s = Some (Returned v, ?a)"
    by auto
  from startMeUp_exits [where C = C' and t = t, OF assms(1,2,4,5,6)] g
  have ex: "startMeUp V P C' t a s = Some (thread_end V t v ?b)"
    by auto
  let ?spec = "if V = Keyed then (specific s1)(t := NULL) else specific s1"
  let ?s_ret = "s1\<lparr>specific := ?spec,
     trace := ?base @ [EntryReturned t v, Clear t h, ReleaseHeap t, ThreadEnd t v] @ destructor_events V t h\<rparr>"
  let ?s_exit = "s1\<lparr>specific := ?spec,
     trace := ?base @ [Clear t h, ReleaseHeap t, ThreadEnd t v] @ destructor_events V t h\<rparr>"
  have ea: "thread_end V t v ?a = (ThreadExit v, ?s_ret)"
    using thread_end_cached [of V ?a t h v] st c h by simp
  have eb: "thread_end V t v ?b = (ThreadExit v, ?s_exit)"
    using thread_end_cached [of V ?b t h v] st c h by simp
  have "thread_main V P C t a s = Some (thread_end V t v ?a)"
    by (simp add: thread_main_def ret)
  then have m1: "thread_main V P C t a s = Some (ThreadExit v, ?s_ret)"
    by (simp only: ea)
  have "thread_main V P C' t a s = Some (thread_end V t v ?b)"
    by (simp add: thread_main_def ex thread_end_def Let_def)
  then have m2: "thread_main V P C' t a s = Some (ThreadExit v, ?s_exit)"
    by (simp only: eb)
  have t1: "trace ?s_ret = ?base @ [EntryReturned t v, Clear t h, ReleaseHeap t, ThreadEnd t v]
                            @ destructor_events V t h"
    by simp
  have t2: "trace ?s_exit = ?base @ [Clear t h, ReleaseHeap t, ThreadEnd t v]
                            @ destructor_events V t h"
    by simp
  have same: "?s_exit\<lparr>trace := []\<rparr> = ?s_ret\<lparr>trace := []\<rparr>"
    by simp
  have pc: "pool_calls (trace ?s_exit) = pool_calls (trace ?s_ret)"
    by (simp add: pool_calls_def is_pool_call_def)
  have cc: "cache_calls (trace ?s_exit) = cache_calls (trace ?s_ret)"
    by (simp add: cache_calls_def is_cache_call_def)
  from m1 m2 t1 t2 same pc cc show ?thesis
    by blast
qed

theorem exit_paths_same_teardown_witness:
  "tls_ready Keyed (posix Keyed 0 0) example_state
   \<and> packages example_state (Obj 0) = Some (5, 7)
   \<and> example_prog 5 7 = ([UseHeap], 42)
   \<and> example_prog_exit 5 7 = ([UseHeap] @ CallPthreadExit 42 # [UseHeap], 0)
   \<and> real_pthread_exit (posix Keyed 0 0) = thread_end Keyed
   \<and> (\<exists>s_ret s_exit base h.
           thread_main Keyed (posix Keyed 0 0) example_prog 2 (Obj 0) example_state
             = Some (ThreadExit 42, s_ret)
         \<and> thread_main Keyed (posix Keyed 0 0) example_prog_exit 2 (Obj 0) example_state
             = Some (ThreadExit 42, s_exit)
         \<and> trace s_ret = base @ [EntryReturned 2 42, Clear 2 h, ReleaseHeap 2, ThreadEnd 2 42]
                            @ destructor_events Keyed 2 h
         \<and> trace s_exit = base @ [Clear 2 h, ReleaseHeap 2, ThreadEnd 2 42]
                            @ destructor_events Keyed 2 h
         \<and> s_exit\<lparr>trace := []\<rparr> = s_ret\<lparr>trace := []\<rparr>
         \<and> pool_calls (trace s_exit) = pool_calls (trace s_ret)
         \<and> cache_calls (trace s_exit) = cache_calls (trace s_ret))"
proof -
  have a: "tls_ready Keyed (posix Keyed 0 0) example_state"
    by (rule example_ready)
  have b: "packages example_state (Obj 0) = Some (5, 7)"
    by (simp add: example_state_def)
  have c: "example_prog 5 7 = ([UseHeap], 42)"
    by (simp add: example_prog_def)
  have d: "example_prog_exit 5 7 = ([UseHeap] @ CallPthreadExit 42 # [UseHeap], 0)"
    by (simp add: example_prog_exit_def)
  have e: "set [UseHeap] \<subseteq> {UseHeap}" by simp
  have f: "real_pthread_exit (posix Keyed 0 0) = thread_end Keyed"
    by (simp add: posix_def)
  from exit_paths_same_teardown
    [where C = example_prog and C' = example_prog_exit and t = 2, OF a b c d e f] a b c d f
  show ?thesis by blast
qed

text \<open>
  C2. Within the wrapper entry function run by every intercepted thread, the heap lease
  (\<^verbatim>\<open>findUnusedHeap\<close>) happens-before the TLAB's Local Cache construction completes,
  and the flush and heap release happen after the real entry function returns and
  before control is forwarded to the real exit implementation.

  The first half fails: \<^verbatim>\<open>startMeUp\<close> calls \<^verbatim>\<open>getCustomHeap()\<close> (line 186), which
  constructs the TLAB of the new thread, and only then \<^verbatim>\<open>findUnusedHeap()\<close> (line
  187). In the run below the construction is the first event and the lease the second.
\<close>

theorem lease_before_construction_counterexample:
  "map_option (trace \<circ> snd)
     (startMeUp Inline (posix Inline 0 0) example_prog 2 (Obj 0) example_state)
     = Some [Construct 2 (TlabBuffer 2), FindUnusedHeap 2, CallEntry 2 5 7,
             UseCache 2 (TlabBuffer 2), EntryReturned 2 42, Clear 2 (TlabBuffer 2), ReleaseHeap 2]
   \<and> map_option (happens_before (FindUnusedHeap 2) (Construct 2 (TlabBuffer 2)) \<circ> trace \<circ> snd)
       (startMeUp Inline (posix Inline 0 0) example_prog 2 (Obj 0) example_state) = Some False
   \<and> map_option (happens_before (Construct 2 (TlabBuffer 2)) (FindUnusedHeap 2) \<circ> trace \<circ> snd)
       (startMeUp Inline (posix Inline 0 0) example_prog 2 (Obj 0) example_state) = Some True"
  by (simp add: startMeUp_def exitRoutine_def getCustomHeap_def getCustomHeap_inline_def
      initializeCustomHeap_inline_def emit_def example_prog_def example_state_def boot_def
      happens_before_def Let_def)

text \<open>
  C2 as amended: in the wrapper run by a new thread (its slot is unset), the
  construction of the TLAB completes before the heap lease, and both come before the
  call of the real entry function; the flush and the release come after the return of
  the entry function and before the wrapper returns to the thread library, which ends
  the thread on the state the teardown has left.
\<close>

theorem construction_then_lease_then_teardown:
  assumes "tls_ready V P s" and "cache V s t = NULL" and "packages s a = Some (f, arg)"
    and "C f arg = (stmts, r)" and "set stmts \<subseteq> {UseHeap}"
  shows "\<exists>s' h. startMeUp V P C t a s = Some (Returned r, s') \<and> h \<noteq> NULL
           \<and> trace s' = trace s @ (case V of Inline \<Rightarrow> [] | Keyed \<Rightarrow> [PoolMalloc t h])
                 @ [Construct t h, FindUnusedHeap t, CallEntry t f arg]
                 @ replicate (length stmts) (UseCache t h)
                 @ [EntryReturned t r, Clear t h, ReleaseHeap t]
           \<and> thread_main V P C t a s = Some (thread_end V t r s')"
proof -
  from startMeUp_returns [where C = C and t = t, OF assms(1,3,4,5)] obtain h s1 where
    g: "getCustomHeap V P t s = Some (h, s1)" and h: "h \<noteq> NULL"
    and run: "startMeUp V P C t a s =
               Some (Returned r,
                 s1\<lparr>trace := trace s1 @ [FindUnusedHeap t, CallEntry t f arg]
                    @ replicate (length stmts) (UseCache t h)
                    @ [EntryReturned t r, Clear t h, ReleaseHeap t]\<rparr>)"
    by blast
  from getCustomHeap_first [OF assms(1), of t] g
  have tr: "trace s1 = trace s @ construct_events V s t h"
    by auto
  let ?s' = "s1\<lparr>trace := trace s1 @ [FindUnusedHeap t, CallEntry t f arg]
                    @ replicate (length stmts) (UseCache t h)
                    @ [EntryReturned t r, Clear t h, ReleaseHeap t]\<rparr>"
  have t': "trace ?s' = trace s @ (case V of Inline \<Rightarrow> [] | Keyed \<Rightarrow> [PoolMalloc t h])
                 @ [Construct t h, FindUnusedHeap t, CallEntry t f arg]
                 @ replicate (length stmts) (UseCache t h)
                 @ [EntryReturned t r, Clear t h, ReleaseHeap t]"
    using assms(2) by (simp add: tr construct_events_def split: variant.splits)
  have tm: "thread_main V P C t a s = Some (thread_end V t r ?s')"
    by (simp add: thread_main_def run)
  from run h t' tm show ?thesis by blast
qed

theorem construction_then_lease_then_teardown_witness:
  "tls_ready Keyed (posix Keyed 0 0) example_state \<and> cache Keyed example_state 2 = NULL
   \<and> packages example_state (Obj 0) = Some (5, 7) \<and> example_prog 5 7 = ([UseHeap], 42)
   \<and> (\<exists>s' h. startMeUp Keyed (posix Keyed 0 0) example_prog 2 (Obj 0) example_state
                  = Some (Returned 42, s') \<and> h \<noteq> NULL
           \<and> trace s' = trace example_state @ (case Keyed of Inline \<Rightarrow> [] | Keyed \<Rightarrow> [PoolMalloc 2 h])
                 @ [Construct 2 h, FindUnusedHeap 2, CallEntry 2 5 7]
                 @ replicate (length [UseHeap]) (UseCache 2 h)
                 @ [EntryReturned 2 42, Clear 2 h, ReleaseHeap 2]
           \<and> thread_main Keyed (posix Keyed 0 0) example_prog 2 (Obj 0) example_state
               = Some (thread_end Keyed 2 42 s'))"
proof -
  have a: "tls_ready Keyed (posix Keyed 0 0) example_state"
    by (rule example_ready)
  have n: "cache Keyed example_state 2 = NULL"
    by (simp add: cache_def example_state_def boot_def)
  have b: "packages example_state (Obj 0) = Some (5, 7)"
    by (simp add: example_state_def)
  have c: "example_prog 5 7 = ([UseHeap], 42)"
    by (simp add: example_prog_def)
  have e: "set [UseHeap] \<subseteq> {UseHeap}" by simp
  from construction_then_lease_then_teardown
    [where C = example_prog and t = 2, OF a n b c e] a n b c
  show ?thesis by blast
qed

text \<open>
  C7. In the keyed storage variant, if the one-time slot/key registration fails
  (\<^verbatim>\<open>pthread_key_create\<close> returns non-zero inside the one-time gate), the process
  does not proceed with an unregistered slot: this is treated as a fatal condition
  rather than being silently ignored.

  This fails: the branch of \<^verbatim>\<open>make_heap_key\<close> for a non-zero result is empty (lines
  113 to 115). With the result 11 the function returns the state it was given,
  \<^verbatim>\<open>initTSD\<close> sets its flag with no key in place, and no call has been made, an exit of
  the process least of all.
\<close>

theorem key_failure_ignored_counterexample:
  "key_create_rc (posix Keyed 11 0) \<noteq> 0
   \<and> make_heap_key (posix Keyed 11 0) boot = boot
   \<and> initializedTSD (initTSD (posix Keyed 11 0) boot)
   \<and> \<not> theHeapKey (initTSD (posix Keyed 11 0) boot)
   \<and> trace (initTSD (posix Keyed 11 0) boot) = []"
  by (simp add: initTSD_def pthread_once_def make_heap_key_def pthread_key_create_def
      posix_def boot_def)

text \<open>
  C7 as amended: if \<^verbatim>\<open>pthread_key_create\<close> returns non-zero inside the one-time gate,
  the failure is ignored: \<^verbatim>\<open>make_heap_key\<close> returns with nothing changed,
  \<^verbatim>\<open>initTSD\<close> completes with the gate fired and its flag set and with no key
  registered, it makes no call (so no exit and no abort), and a later \<^verbatim>\<open>initTSD\<close>
  does not try the registration again: on any platform \<open>P'\<close>, also one where the
  creation would now succeed, it changes nothing, and neither does the gate.
\<close>

theorem key_failure_is_ignored:
  assumes "key_create_rc P \<noteq> 0" and "\<not> initializedTSD s" and "\<not> key_once s"
    and "\<not> theHeapKey s"
  shows "make_heap_key P s = s
         \<and> initTSD P s = s\<lparr>key_once := True, initializedTSD := True\<rparr>
         \<and> \<not> theHeapKey (initTSD P s)
         \<and> trace (initTSD P s) = trace s
         \<and> initTSD P (initTSD P s) = initTSD P s
         \<and> initTSD P' (initTSD P s) = initTSD P s
         \<and> pthread_once P' (initTSD P s) = initTSD P s
         \<and> \<not> theHeapKey (initTSD P' (initTSD P s))"
  using assms
  by (simp add: initTSD_def pthread_once_def make_heap_key_def pthread_key_create_def)

theorem key_failure_is_ignored_witness:
  "key_create_rc (posix Keyed 11 0) \<noteq> 0 \<and> \<not> initializedTSD boot \<and> \<not> key_once boot
   \<and> \<not> theHeapKey boot
   \<and> key_create_rc (posix Keyed 0 0) = 0
   \<and> make_heap_key (posix Keyed 11 0) boot = boot
   \<and> initTSD (posix Keyed 11 0) boot = boot\<lparr>key_once := True, initializedTSD := True\<rparr>
   \<and> \<not> theHeapKey (initTSD (posix Keyed 11 0) boot)
   \<and> trace (initTSD (posix Keyed 11 0) boot) = trace boot
   \<and> initTSD (posix Keyed 11 0) (initTSD (posix Keyed 11 0) boot) = initTSD (posix Keyed 11 0) boot
   \<and> initTSD (posix Keyed 0 0) (initTSD (posix Keyed 11 0) boot) = initTSD (posix Keyed 11 0) boot
   \<and> pthread_once (posix Keyed 0 0) (initTSD (posix Keyed 11 0) boot)
       = initTSD (posix Keyed 11 0) boot
   \<and> \<not> theHeapKey (initTSD (posix Keyed 0 0) (initTSD (posix Keyed 11 0) boot))"
proof -
  have a: "key_create_rc (posix Keyed 11 0) \<noteq> 0" by (simp add: posix_def)
  have b: "\<not> initializedTSD boot" by (simp add: boot_def)
  have c: "\<not> key_once boot" by (simp add: boot_def)
  have d: "\<not> theHeapKey boot" by (simp add: boot_def)
  have e: "key_create_rc (posix Keyed 0 0) = 0" by (simp add: posix_def)
  from key_failure_is_ignored [OF a b c d, of "posix Keyed 0 0"] a b c d e show ?thesis
    by blast
qed

text \<open>
  C1. For every thread whose Local Cache was constructed and whose teardown runs, the
  Global Heap Pool's \<^verbatim>\<open>releaseHeap()\<close> is invoked exactly once over that thread's
  lifetime (in particular, a thread that terminates normally under the keyed storage
  variant, where both the wrapper's teardown routine and the registered pthread-key
  destructor run, still yields exactly one release).

  The code at the input the claim names: thread 0 creates a thread with the interposed
  \<^verbatim>\<open>pthread_create\<close>, the new thread 2 runs \<^verbatim>\<open>startMeUp\<close> and its entry function
  returns. In the keyed variant thread 2 leases once and releases twice: once in
  \<^verbatim>\<open>exitRoutine\<close> (line 181) and once more in \<^verbatim>\<open>deleteThatHeap\<close> (line 109), which
  the thread library calls at the end of the thread because \<^verbatim>\<open>exitRoutine\<close> leaves the
  key's value in place. In the inline variant the same thread releases once.
\<close>

theorem keyed_thread_releases_twice:
  "do {
     (rc, s1) \<leftarrow> pthread_create Keyed (posix Keyed 0 0) 0 3 4 5 7 boot;
     (out, s2) \<leftarrow> thread_main Keyed (posix Keyed 0 0) example_prog 2 (Obj 1) s1;
     Some (out, count_list (trace s2) (FindUnusedHeap 2), count_list (trace s2) (ReleaseHeap 2),
           trace s2)
   } = Some (ThreadExit 42, 1, 2,
        [PoolMalloc 0 (Obj 0), Construct 0 (Obj 0),
         PoolMalloc 2 (Obj 2), Construct 2 (Obj 2), FindUnusedHeap 2, CallEntry 2 5 7,
         UseCache 2 (Obj 2), EntryReturned 2 42, Clear 2 (Obj 2), ReleaseHeap 2,
         ThreadEnd 2 42, Clear 2 (Obj 2), PoolFree 2 (Obj 2), ReleaseHeap 2])
   \<and> do {
     (rc, s1) \<leftarrow> pthread_create Inline (posix Inline 0 0) 0 3 4 5 7 boot;
     (out, s2) \<leftarrow> thread_main Inline (posix Inline 0 0) example_prog 2 (Obj 0) s1;
     Some (out, count_list (trace s2) (FindUnusedHeap 2), count_list (trace s2) (ReleaseHeap 2),
           trace s2)
   } = Some (ThreadExit 42, 1, 1,
        [Construct 0 (TlabBuffer 0),
         Construct 2 (TlabBuffer 2), FindUnusedHeap 2, CallEntry 2 5 7,
         UseCache 2 (TlabBuffer 2), EntryReturned 2 42, Clear 2 (TlabBuffer 2), ReleaseHeap 2,
         ThreadEnd 2 42])"
  by (simp add: pthread_create_def new_pair_def model_defs)

text \<open>
  C8. For every intercepted thread creation, the Thread Launch Package (the
  heap-allocated pair of the caller's entry function and argument) has its storage
  freed by the wrapper after the wrapper has extracted the function and argument and
  before the wrapper invokes the real entry function.

  The code at an intercepted creation: the pair that \<^verbatim>\<open>pthread_create\<close> makes with
  \<^verbatim>\<open>new\<close> (line 337) is live when the call returns and is still live when the thread
  has ended; \<^verbatim>\<open>startMeUp\<close> reads it and no line of the file deletes it.
\<close>

theorem launch_package_never_freed:
  "do {
     (rc, s1) \<leftarrow> pthread_create Inline (posix Inline 0 0) 0 3 4 5 7 boot;
     (out, s2) \<leftarrow> thread_main Inline (posix Inline 0 0) example_prog 2 (Obj 0) s1;
     Some (packages s1 (Obj 0), out, packages s2 (Obj 0))
   } = Some (Some (5, 7), ThreadExit 42, Some (5, 7))"
  by (simp add: pthread_create_def new_pair_def model_defs)

end
